theory Spec2Isabelle
  imports Complex_Main "HOL-Library.Word"
begin

section \<open>Strings\<close>

text \<open>
  A JavaScript string is a sequence of UTF-16 code units. The literals of
  \<^verbatim>\<open>static/js/main.js\<close> are ASCII, so \<open>js\<close> turns an Isabelle literal into the
  code units of the same JavaScript literal.
\<close>

type_synonym jsstring = "16 word list"

definition js :: "string \<Rightarrow> jsstring" where
  "js s = map of_char s"

text \<open>
  The code units that \<^verbatim>\<open>String.prototype.trim\<close>, the regular-expression class
  \<^verbatim>\<open>\s\<close> and \<^verbatim>\<open>parseInt\<close> treat as white space: the WhiteSpace and
  LineTerminator productions of ECMAScript.
\<close>

definition is_space :: "16 word \<Rightarrow> bool" where
  "is_space c = (c \<in> set [0x9, 0xA, 0xB, 0xC, 0xD, 0x20, 0xA0, 0x1680, 0x2028, 0x2029,
                           0x202F, 0x205F, 0x3000, 0xFEFF] \<or> (0x2000 \<le> c \<and> c \<le> 0x200A))"

definition is_digit :: "16 word \<Rightarrow> bool" where
  "is_digit c = (0x30 \<le> c \<and> c \<le> 0x39)"

definition trim :: "jsstring \<Rightarrow> jsstring" where
  "trim s = rev (dropWhile is_space (rev (dropWhile is_space s)))"

section \<open>Regular expressions\<close>

text \<open>
  Both regular expressions of the file have the shape \<^verbatim>\<open>^ t1 t2 ... tn $\<close> with
  every term an atom under a quantifier (\<^verbatim>\<open>+\<close>, \<^verbatim>\<open>{10}\<close>, or none), and no flag that
  changes the anchors. \<open>match_seq\<close> is the backtracking search of
  \<^verbatim>\<open>RegExp.prototype.test\<close> on such a pattern, as a truth value: a term may
  consume any number of matching code units between its bounds, and the
  end of the pattern must meet the end of the input.
\<close>

datatype atom = Digit | NonDigit | NotSpaceNorAt | Lit "16 word"

fun atom_matches :: "atom \<Rightarrow> 16 word \<Rightarrow> bool" where
  "atom_matches Digit c = is_digit c"
| "atom_matches NonDigit c = (\<not> is_digit c)"
| "atom_matches NotSpaceNorAt c = (\<not> is_space c \<and> c \<noteq> 0x40)"
| "atom_matches (Lit d) c = (c = d)"

type_synonym quantified = "atom \<times> nat \<times> nat option"

definition once :: "atom \<Rightarrow> quantified" where
  "once a = (a, 1, Some 1)"

definition one_or_more :: "atom \<Rightarrow> quantified" where
  "one_or_more a = (a, 1, None)"

definition exactly :: "nat \<Rightarrow> atom \<Rightarrow> quantified" where
  "exactly n a = (a, n, Some n)"

fun match_seq :: "quantified list \<Rightarrow> jsstring \<Rightarrow> bool" where
  "match_seq [] s = (s = [])"
| "match_seq ((a, lo, hi) # ts) s =
     (let n = length (takeWhile (atom_matches a) s);
          most = (case hi of None \<Rightarrow> n | Some h \<Rightarrow> min h n)
      in list_ex (\<lambda>k. match_seq ts (drop k s)) [lo ..< Suc most])"

text \<open>\<^verbatim>\<open>str.replace(/A/g, '')\<close> for a one-atom pattern: every code unit that the
  atom matches is deleted.\<close>

definition delete_all :: "atom \<Rightarrow> jsstring \<Rightarrow> jsstring" where
  "delete_all a s = filter (\<lambda>c. \<not> atom_matches a c) s"

section \<open>Validation helpers\<close>

text \<open>\<^verbatim>\<open>/^[^\s@]+@[^\s@]+\.[^\s@]+$/\<close>\<close>

definition email_re :: "quantified list" where
  "email_re = [one_or_more NotSpaceNorAt, once (Lit 0x40), one_or_more NotSpaceNorAt,
               once (Lit 0x2E), one_or_more NotSpaceNorAt]"

definition validateEmail :: "jsstring \<Rightarrow> bool" where
  "validateEmail email = match_seq email_re email"

text \<open>\<^verbatim>\<open>/^\d{10}$/\<close> tested on \<^verbatim>\<open>phone.replace(/\D/g, '')\<close>\<close>

definition phone_re :: "quantified list" where
  "phone_re = [exactly 10 Digit]"

definition validatePhone :: "jsstring \<Rightarrow> bool" where
  "validatePhone phone = match_seq phone_re (delete_all NonDigit phone)"

text \<open>The phone rule in the words of the specification: strip every non-digit
  character, then require what is left to be exactly 10 digits.\<close>

definition strip_non_digits :: "jsstring \<Rightarrow> jsstring" where
  "strip_non_digits s = filter is_digit s"

definition spec_phone_ok :: "jsstring \<Rightarrow> bool" where
  "spec_phone_ok s = (length (strip_non_digits s) = 10 \<and> list_all is_digit (strip_non_digits s))"

section \<open>Numbers\<close>

text \<open>
  A JavaScript number is NaN, an infinity or a finite double; a finite double is
  a rational, which is all that the truth test and the comparison \<^verbatim>\<open>qty < 1\<close>
  look at. (\<^verbatim>\<open>-0\<close> is \<open>Fin 0\<close>: it is falsy and compares like \<^verbatim>\<open>0\<close>.)
\<close>

datatype jsnum = NaN | NegInf | PosInf | Fin rat

fun num_truthy :: "jsnum \<Rightarrow> bool" where
  "num_truthy NaN = False"
| "num_truthy NegInf = True"
| "num_truthy PosInf = True"
| "num_truthy (Fin r) = (r \<noteq> 0)"

text \<open>\<^verbatim>\<open>x < 1\<close> on a number: every comparison with NaN is false.\<close>

fun lt_one :: "jsnum \<Rightarrow> bool" where
  "lt_one NaN = False"
| "lt_one NegInf = True"
| "lt_one PosInf = False"
| "lt_one (Fin r) = (r < 1)"

subsection \<open>Rounding to a double\<close>

text \<open>
  The Number value of a rational \<open>q\<close>: the double nearest to the rational \<open>q\<close>, ties
  going to the even significand, and an infinity from \<open>2^1024\<close> on. For
  \<open>2^e \<le> |q| < 2^(e+1)\<close> the doubles around \<open>q\<close> are the multiples of
  \<open>2^(e-52)\<close>; below \<open>2^-1022\<close> they are the multiples of \<open>2^-1074\<close>.
  \<open>log2n n\<close> is the integer part of the binary logarithm of \<open>n \<ge> 1\<close>, and
  \<open>ilog2 q\<close> that of a positive rational.
\<close>

fun log2n :: "nat \<Rightarrow> nat" where
  "log2n n = (if n < 2 then 0 else Suc (log2n (n div 2)))"

definition ilog2 :: "rat \<Rightarrow> int" where
  "ilog2 q = (if 1 \<le> q then int (log2n (nat \<lfloor>q\<rfloor>))
              else (let m = nat \<lceil>1 / q\<rceil> in if m \<le> 1 then 0 else - int (Suc (log2n (m - 1)))))"

definition round_half_even :: "rat \<Rightarrow> int" where
  "round_half_even r =
     (let f = \<lfloor>r\<rfloor>
      in if r - of_int f < 1 / 2 then f
         else if 1 / 2 < r - of_int f then f + 1
         else if even f then f else f + 1)"

definition round_to_double :: "rat \<Rightarrow> jsnum" where
  "round_to_double q =
     (if q = 0 then Fin 0
      else (let a = \<bar>q\<bar>;
                e = max (ilog2 a) (- 1022);
                u = 2 powi (e - 52);
                r = of_int (round_half_even (a / u)) * u
            in if 2 ^ 1024 \<le> r then (if q < 0 then NegInf else PosInf)
               else Fin (if q < 0 then - r else r)))"


subsection \<open>Reading numbers\<close>

text \<open>
  \<^verbatim>\<open>parseInt(string)\<close> with no radix: leading white space is skipped, a sign is
  read, a \<^verbatim>\<open>0x\<close> or \<^verbatim>\<open>0X\<close> prefix selects radix 16, and the longest run of digits of
  the radix is the value, rounded to a double; no digit at all gives NaN.
\<close>

definition digit_value :: "16 word \<Rightarrow> nat option" where
  "digit_value c =
     (if 0x30 \<le> c \<and> c \<le> 0x39 then Some (unat c - 0x30)
      else if 0x61 \<le> c \<and> c \<le> 0x7A then Some (unat c - 0x61 + 10)
      else if 0x41 \<le> c \<and> c \<le> 0x5A then Some (unat c - 0x41 + 10)
      else None)"

definition is_radix_digit :: "nat \<Rightarrow> 16 word \<Rightarrow> bool" where
  "is_radix_digit R c = (case digit_value c of None \<Rightarrow> False | Some d \<Rightarrow> d < R)"

definition digits_value :: "nat \<Rightarrow> jsstring \<Rightarrow> nat" where
  "digits_value R z =
     foldl (\<lambda>n c. n * R + (case digit_value c of None \<Rightarrow> 0 | Some d \<Rightarrow> d)) 0 z"

definition parseInt :: "jsstring \<Rightarrow> jsnum" where
  "parseInt string =
     (let s0 = dropWhile is_space string;
          sign = (if s0 \<noteq> [] \<and> hd s0 = 0x2D then - 1 else 1 :: int);
          s1 = (if s0 \<noteq> [] \<and> (hd s0 = 0x2B \<or> hd s0 = 0x2D) then tl s0 else s0);
          hex = (take 2 s1 = js ''0x'' \<or> take 2 s1 = js ''0X'');
          R = (if hex then 16 else 10);
          s2 = (if hex then drop 2 s1 else s1);
          z = takeWhile (is_radix_digit R) s2
      in if z = [] then NaN else round_to_double (of_int (sign * int (digits_value R z))))"



subsection \<open>Writing numbers\<close>









subsection \<open>The price formatter\<close>





section \<open>JSON values\<close>

text \<open>
  What \<^verbatim>\<open>response.json()\<close> resolves to, and what \<^verbatim>\<open>JSON.stringify\<close> is handed.
  An object is the list of its own properties; a property that is absent
  reads as \<^verbatim>\<open>undefined\<close>, which is \<open>None\<close>.
\<close>

datatype json =
    JNull
  | JBool bool
  | JNumber jsnum
  | JString jsstring
  | JArray "json list"
  | JObject "(jsstring \<times> json) list"

fun truthy :: "json option \<Rightarrow> bool" where
  "truthy None = False"
| "truthy (Some JNull) = False"
| "truthy (Some (JBool b)) = b"
| "truthy (Some (JNumber n)) = num_truthy n"
| "truthy (Some (JString s)) = (s \<noteq> [])"
| "truthy (Some (JArray xs)) = True"
| "truthy (Some (JObject kvs)) = True"

text \<open>\<^verbatim>\<open>v || d\<close>\<close>

fun or_else :: "json option \<Rightarrow> json \<Rightarrow> json" where
  "or_else None d = d"
| "or_else (Some v) d = (if truthy (Some v) then v else d)"

text \<open>
  How a promise chain can fail: \<^verbatim>\<open>fetch\<close> rejects, \<^verbatim>\<open>response.json()\<close> rejects,
  or the handler itself throws: a TypeError (a property read on \<^verbatim>\<open>null\<close>) or
  the SyntaxError of \<^verbatim>\<open>querySelector\<close> on a text that is no selector.
\<close>

datatype js_error = FetchFailed | JsonParseFailed | TypeError | SyntaxError

text \<open>\<^verbatim>\<open>data.key\<close>, for the keys the handlers read (\<^verbatim>\<open>count\<close>, \<^verbatim>\<open>success\<close>,
  \<^verbatim>\<open>message\<close>): only an object can have them, and \<^verbatim>\<open>null\<close> has no properties.\<close>

fun get_prop :: "json \<Rightarrow> jsstring \<Rightarrow> js_error + json option" where
  "get_prop JNull k = Inl TypeError"
| "get_prop (JObject kvs) k = Inr (map_of kvs k)"
| "get_prop (JBool b) k = Inr None"
| "get_prop (JNumber n) k = Inr None"
| "get_prop (JString s) k = Inr None"
| "get_prop (JArray xs) k = Inr None"

section \<open>The page\<close>

text \<open>
  The state the script reads and writes: the parts of the document it
  touches, the timers it has set, the console, the dialogs it has opened, the
  requests it has issued and those still waiting for their response.
\<close>

record request =
  url :: jsstring
  http_method :: jsstring
  headers :: "(jsstring \<times> jsstring) list"
  body :: "(jsstring \<times> json) list option"

record notification =
  nid :: nat
  className :: jsstring
  textContent :: json

record flash_container =
  display_none :: bool
  children :: "notification list"

datatype timer = HideFlash | RemoveNotification nat | GotoOrders

text \<open>The \<^verbatim>\<open>.then(...).catch(...)\<close> pair attached to a request; \<open>OnAdd\<close> keeps
  the \<^verbatim>\<open>qtyInput\<close> its closure captured, \<open>OnRemove\<close> the \<^verbatim>\<open>productId\<close>.\<close>

datatype handler = OnCount | OnAdd "jsstring option" | OnUpdate | OnRemove jsstring | OnOrder

record page =
  cartCount :: "json option"
  inputs :: "jsstring \<rightharpoonup> jsstring"
  cartLines :: "jsstring list"
  querySelector :: "jsstring \<Rightarrow> jsstring list \<Rightarrow> js_error + nat option"
  flash :: "flash_container option"
  nextId :: nat
  timers :: "(nat \<times> timer) list"
  console :: "(jsstring \<times> js_error) list"
  prompts :: "jsstring list"
  sent :: "request list"
  inflight :: "(request \<times> handler) list"
  reloads :: nat
  location :: jsstring

text \<open>
  \<open>cartCount\<close> is the value last assigned to the text of the element
  \<^verbatim>\<open>#cartCount\<close> (\<open>None\<close>: no such element); \<open>inputs\<close> maps the id of a form
  control to its \<^verbatim>\<open>value\<close>; \<open>cartLines\<close> lists the \<^verbatim>\<open>data-product-id\<close> of
  the line elements in document order; \<open>flash\<close> is the first element of
  class \<^verbatim>\<open>flash-messages\<close>. \<open>sent\<close> only grows; \<open>inflight\<close> loses a
  request when its response is delivered.

  \<open>querySelector\<close> is \<^verbatim>\<open>document.querySelector\<close> as the browser runs it on
  this document: given the text of a selector and the \<^verbatim>\<open>data-product-id\<close> of
  the line elements now in the document, it throws, finds no element
  (\<open>None\<close>), or finds the line at an index (an index past the lines: an
  element that is not a line). The script pastes the product id into the
  selector text, so what that text selects is the browser's to say.
\<close>

text \<open>
  Three views of the notifications: \<open>shown\<close> lists the message and class of
  the elements in the flash container, displayed or not; \<open>displayed\<close>
  tells whether the container, if there is one, has not been hidden (the
  page-load timer sets its \<^verbatim>\<open>display\<close> to \<^verbatim>\<open>none\<close>); \<open>visible\<close> lists what
  the user can see, which is nothing in a hidden container.
\<close>

definition shown :: "page \<Rightarrow> (json \<times> jsstring) list" where
  "shown st = (case flash st of None \<Rightarrow> []
               | Some c \<Rightarrow> map (\<lambda>n. (textContent n, className n)) (children c))"

definition displayed :: "page \<Rightarrow> bool" where
  "displayed st = (case flash st of None \<Rightarrow> True | Some c \<Rightarrow> \<not> display_none c)"

definition visible :: "page \<Rightarrow> (json \<times> jsstring) list" where
  "visible st = (case flash st of None \<Rightarrow> []
                 | Some c \<Rightarrow> if display_none c then []
                            else map (\<lambda>n. (textContent n, className n)) (children c))"

definition fetch :: "request \<Rightarrow> handler \<Rightarrow> page \<Rightarrow> page" where
  "fetch r h st = st\<lparr>sent := sent st @ [r], inflight := inflight st @ [(r, h)]\<rparr>"

definition post_json :: "jsstring \<Rightarrow> (jsstring \<times> json) list \<Rightarrow> request" where
  "post_json u b = \<lparr>url = u, http_method = js ''POST'',
                    headers = [(js ''Content-Type'', js ''application/json'')], body = Some b\<rparr>"

section \<open>Cart count and notifications\<close>

definition updateCartCount :: "page \<Rightarrow> page" where
  "updateCartCount st =
     fetch \<lparr>url = js ''/api/cart/count'', http_method = js ''GET'', headers = [], body = None\<rparr>
       OnCount st"

definition createFlashContainer :: flash_container where
  "createFlashContainer = \<lparr>display_none = False, children = []\<rparr>"

definition showNotification :: "json \<Rightarrow> jsstring \<Rightarrow> page \<Rightarrow> page" where
  "showNotification message type st =
     (let notification = \<lparr>nid = nextId st, className = js ''flash-message flash-'' @ type,
                           textContent = message\<rparr>;
          flashContainer = (case flash st of Some c \<Rightarrow> c | None \<Rightarrow> createFlashContainer)
      in st\<lparr>flash := Some (flashContainer\<lparr>children := children flashContainer @ [notification]\<rparr>),
            nextId := Suc (nextId st),
            timers := timers st @ [(3000, RemoveNotification (nextId st))]\<rparr>)"

text \<open>The \<^verbatim>\<open>DOMContentLoaded\<close> listener.\<close>

definition page_loaded :: "page \<Rightarrow> page" where
  "page_loaded st = (let st1 = updateCartCount st in st1\<lparr>timers := timers st1 @ [(5000, HideFlash)]\<rparr>)"

fun run_timer :: "timer \<Rightarrow> page \<Rightarrow> page" where
  "run_timer HideFlash st =
     st\<lparr>flash := map_option (\<lambda>c. c\<lparr>display_none := True\<rparr>) (flash st)\<rparr>"
| "run_timer (RemoveNotification n) st =
     st\<lparr>flash := map_option (\<lambda>c. c\<lparr>children := filter (\<lambda>x. nid x \<noteq> n) (children c)\<rparr>) (flash st)\<rparr>"
| "run_timer GotoOrders st = st\<lparr>location := js ''/orders''\<rparr>"

section \<open>Cart and order actions\<close>

text \<open>
  \<^verbatim>\<open>addToCart(productId, quantity = null)\<close>: \<open>None\<close> is the quantity left out
  (or \<^verbatim>\<open>null\<close>), \<open>Some q\<close> a number. \<^verbatim>\<open>quantity || ...\<close> keeps a truthy
  number and falls through to the input field on \<^verbatim>\<open>null\<close>, \<^verbatim>\<open>0\<close> and NaN.
\<close>

definition addToCart :: "jsstring \<Rightarrow> jsnum option \<Rightarrow> page \<Rightarrow> page" where
  "addToCart productId quantity st =
     (let qtyInput = js ''qty-'' @ productId;
          fromInput = (case inputs st qtyInput of Some v \<Rightarrow> parseInt v | None \<Rightarrow> Fin 1);
          qty = (case quantity of
                   None \<Rightarrow> fromInput
                 | Some q \<Rightarrow> if num_truthy q then q else fromInput)
      in if lt_one qty
         then showNotification (JString (js ''Please select a valid quantity'')) (js ''error'') st
         else fetch (post_json (js ''/add_to_cart'')
                       [(js ''product_id'', JString productId), (js ''quantity'', JNumber qty)])
                (OnAdd (case inputs st qtyInput of Some v \<Rightarrow> Some qtyInput | None \<Rightarrow> None)) st)"

text \<open>\<^verbatim>\<open>removeFromCart(productId)\<close>; \<open>confirm\<close> is the user's answer to the
  dialog with the given message.\<close>

definition removeFromCart :: "(jsstring \<Rightarrow> bool) \<Rightarrow> jsstring \<Rightarrow> page \<Rightarrow> page" where
  "removeFromCart confirm productId st =
     (let st1 = st\<lparr>prompts := prompts st @ [js ''Remove this item from cart?'']\<rparr>
      in if \<not> confirm (js ''Remove this item from cart?'') then st1
         else fetch (post_json (js ''/remove_from_cart'') [(js ''product_id'', JString productId)])
                (OnRemove productId) st1)"

text \<open>\<^verbatim>\<open>updateQuantity(productId, newQuantity)\<close>, with \<^verbatim>\<open>newQuantity\<close> a number.\<close>

definition updateQuantity :: "(jsstring \<Rightarrow> bool) \<Rightarrow> jsstring \<Rightarrow> jsnum \<Rightarrow> page \<Rightarrow> page" where
  "updateQuantity confirm productId newQuantity st =
     (if lt_one newQuantity then removeFromCart confirm productId st
      else fetch (post_json (js ''/update_cart'')
                    [(js ''product_id'', JString productId), (js ''quantity'', JNumber newQuantity)])
             OnUpdate st)"

text \<open>\<^verbatim>\<open>placeOrder()\<close>: reading \<^verbatim>\<open>.value\<close> of a form field that is not in the
  document throws, and nothing catches it.\<close>

definition placeOrder :: "page \<Rightarrow> js_error + page" where
  "placeOrder st =
     (case inputs st (js ''deliveryAddress'') of
        None \<Rightarrow> Inl TypeError
      | Some a \<Rightarrow>
         (case inputs st (js ''phoneNumber'') of
            None \<Rightarrow> Inl TypeError
          | Some p \<Rightarrow>
             (let address = trim a; phone = trim p
              in if address = []
                 then Inr (showNotification (JString (js ''Please enter delivery address''))
                             (js ''error'') st)
                 else if \<not> validatePhone phone
                 then Inr (showNotification (JString (js ''Please enter a valid phone number''))
                             (js ''error'') st)
                 else Inr (fetch (post_json (js ''/place_order'')
                                    [(js ''address'', JString address), (js ''phone'', JString phone)])
                             OnOrder st))))"

section \<open>Responses\<close>

text \<open>
  The last \<^verbatim>\<open>.then\<close> of each chain, run on the parsed response. \<open>Inl\<close> is an
  exception thrown by the handler; each handler that can throw does so
  before it has changed anything. The selector of \<open>OnRemove\<close> is the text
  \<^verbatim>\<open>[data-product-id="\<close>, the product id, and \<^verbatim>\<open>"]\<close> (\<open>0x22\<close> is the double
  quote, \<open>0x5D\<close> the closing bracket).
\<close>

fun then_handler :: "handler \<Rightarrow> json \<Rightarrow> page \<Rightarrow> js_error + page" where
  "then_handler OnCount data st =
     (case cartCount st of
        None \<Rightarrow> Inl TypeError
      | Some old \<Rightarrow>
         (case get_prop data (js ''count'') of
            Inl e \<Rightarrow> Inl e
          | Inr v \<Rightarrow> Inr (st\<lparr>cartCount := Some (or_else v (JNumber (Fin 0)))\<rparr>)))"
| "then_handler (OnAdd qtyInput) data st =
     (case get_prop data (js ''success'') of
        Inl e \<Rightarrow> Inl e
      | Inr v \<Rightarrow>
         if truthy v
         then (let st1 = showNotification (JString (js ''Product added to cart!'')) (js ''success'') st;
                   st2 = updateCartCount st1
               in Inr (case qtyInput of
                         None \<Rightarrow> st2
                       | Some i \<Rightarrow> st2\<lparr>inputs := (inputs st2)(i \<mapsto> js ''1'')\<rparr>))
         else Inr (showNotification (JString (js ''Error adding product to cart'')) (js ''error'') st))"
| "then_handler OnUpdate data st =
     (case get_prop data (js ''success'') of
        Inl e \<Rightarrow> Inl e
      | Inr v \<Rightarrow>
         if truthy v then Inr (st\<lparr>reloads := Suc (reloads st)\<rparr>)
         else Inr (showNotification (JString (js ''Error updating cart'')) (js ''error'') st))"
| "then_handler (OnRemove productId) data st =
     (case get_prop data (js ''success'') of
        Inl e \<Rightarrow> Inl e
      | Inr v \<Rightarrow>
         if truthy v
         then (case querySelector st (js ''[data-product-id='' @ [0x22] @ productId @ [0x22, 0x5D])
                      (cartLines st) of
                 Inl e \<Rightarrow> Inl e
               | Inr None \<Rightarrow> Inl TypeError
               | Inr (Some i) \<Rightarrow>
                  (let st1 = st\<lparr>cartLines := take i (cartLines st) @ drop (Suc i) (cartLines st)\<rparr>;
                       st2 = showNotification (JString (js ''Item removed from cart''))
                               (js ''success'') st1;
                       st3 = updateCartCount st2
                   in Inr (st3\<lparr>reloads := Suc (reloads st3)\<rparr>)))
         else Inr (showNotification (JString (js ''Error removing item'')) (js ''error'') st))"
| "then_handler OnOrder data st =
     (case get_prop data (js ''success'') of
        Inl e \<Rightarrow> Inl e
      | Inr v \<Rightarrow>
         if truthy v
         then (let st1 = showNotification (JString (js ''Order placed successfully!''))
                           (js ''success'') st
               in Inr (st1\<lparr>timers := timers st1 @ [(2000, GotoOrders)]\<rparr>))
         else (case get_prop data (js ''message'') of
                 Inl e \<Rightarrow> Inl e
               | Inr m \<Rightarrow> Inr (showNotification (or_else m (JString (js ''Error placing order'')))
                                 (js ''error'') st)))"

text \<open>The \<^verbatim>\<open>.catch\<close> of each chain.\<close>

definition log_and_notify :: "jsstring \<Rightarrow> js_error \<Rightarrow> page \<Rightarrow> page" where
  "log_and_notify message e st =
     showNotification (JString message) (js ''error'')
       (st\<lparr>console := console st @ [(js ''Error:'', e)]\<rparr>)"

fun catch_handler :: "handler \<Rightarrow> js_error \<Rightarrow> page \<Rightarrow> page" where
  "catch_handler OnCount e st = st\<lparr>console := console st @ [(js ''Error updating cart count:'', e)]\<rparr>"
| "catch_handler (OnAdd qtyInput) e st = log_and_notify (js ''Error adding product to cart'') e st"
| "catch_handler OnUpdate e st = log_and_notify (js ''Error updating cart'') e st"
| "catch_handler (OnRemove productId) e st = log_and_notify (js ''Error removing item'') e st"
| "catch_handler OnOrder e st = log_and_notify (js ''Error placing order'') e st"

text \<open>What comes back for a request: no response at all, a body that is not
  JSON, or a JSON value.\<close>

datatype reply = NoResponse | NotJson | Json json

fun settle :: "handler \<Rightarrow> reply \<Rightarrow> page \<Rightarrow> page" where
  "settle h NoResponse st = catch_handler h FetchFailed st"
| "settle h NotJson st = catch_handler h JsonParseFailed st"
| "settle h (Json data) st =
     (case then_handler h data st of Inl e \<Rightarrow> catch_handler h e st | Inr st' \<Rightarrow> st')"

text \<open>The response to the \<open>i\<close>-th waiting request arrives.\<close>

definition deliver :: "nat \<Rightarrow> reply \<Rightarrow> page \<Rightarrow> page" where
  "deliver i r st =
     (if i < length (inflight st)
      then settle (snd (inflight st ! i)) r
             (st\<lparr>inflight := take i (inflight st) @ drop (Suc i) (inflight st)\<rparr>)
      else st)"

section \<open>Example pages\<close>

text \<open>A product page with the cart badge and the quantity field of product
  \<^verbatim>\<open>P1\<close> holding \<^verbatim>\<open>3\<close>; the same page with no quantity field; a cart page with
  one line; and a checkout page with both form fields filled in.\<close>

text \<open>On these pages \<^verbatim>\<open>querySelector\<close> knows the selectors
  \<^verbatim>\<open>[data-product-id="v"]\<close> with no quote, backslash, line break or NUL in \<open>v\<close>,
  which select the first line with that id, and throws on any other text.\<close>

definition plain :: "16 word \<Rightarrow> bool" where
  "plain c = (c \<notin> set [0x22, 0x5C, 0xA, 0xC, 0xD, 0x0000])"

definition attribute_query :: "jsstring \<Rightarrow> jsstring list \<Rightarrow> js_error + nat option" where
  "attribute_query sel ls =
     (let pre = js ''[data-product-id='' @ [0x22];
          v = take (length sel - length pre - 2) (drop (length pre) sel)
      in if sel = pre @ v @ [0x22, 0x5D] \<and> list_all plain v
         then Inr (if v \<in> set ls then Some (length (takeWhile (\<lambda>l. l \<noteq> v) ls)) else None)
         else Inl SyntaxError)"

definition bare_page :: page where
  "bare_page = \<lparr>cartCount = Some (JString (js ''0'')), inputs = Map.empty, cartLines = [],
     querySelector = attribute_query, flash = None, nextId = 0, timers = [], console = [], prompts = [], sent = [],
     inflight = [], reloads = 0, location = js ''/''\<rparr>"

definition product_page :: page where
  "product_page = bare_page\<lparr>inputs := [js ''qty-P1'' \<mapsto> js ''3'']\<rparr>"

definition cart_page :: page where
  "cart_page = bare_page\<lparr>cartCount := Some (JString (js ''2'')), cartLines := [js ''P1'']\<rparr>"

definition checkout_page :: page where
  "checkout_page = bare_page\<lparr>inputs := [js ''deliveryAddress'' \<mapsto> js '' 12 Main St '',
                                          js ''phoneNumber'' \<mapsto> js ''(555) 123-4567'']\<rparr>"





declare log2n.simps [simp del]


section \<open>Facts about doubles\<close>

lemma log2n_small: "n < 2 \<Longrightarrow> log2n n = 0"
  by (simp add: log2n.simps)

lemma log2n_step: "2 \<le> n \<Longrightarrow> log2n n = Suc (log2n (n div 2))"
  by (subst log2n.simps) simp






lemma rhe_near: "\<bar>of_int (round_half_even r) - r\<bar> \<le> 1 / 2"
proof -
  define f where "f = \<lfloor>r\<rfloor>"
  have b: "of_int f \<le> r" "r < of_int f + 1" unfolding f_def by linarith+
  consider "r - of_int f < 1 / 2" | "1 / 2 < r - of_int f" | "r - of_int f = 1 / 2"
    by linarith
  then show ?thesis
  proof cases
    case 1
    then have "round_half_even r = f" by (simp add: round_half_even_def f_def)
    with 1 b show ?thesis by simp
  next
    case 2
    then have "round_half_even r = f + 1" by (simp add: round_half_even_def f_def)
    with 2 b show ?thesis by simp
  next
    case 3
    then have "round_half_even r = f \<or> round_half_even r = f + 1"
      by (simp add: round_half_even_def f_def Let_def)
    with 3 show ?thesis by auto
  qed
qed

lemma rhe_unique:
  assumes "\<bar>r - of_int k\<bar> < 1 / 2"
  shows "round_half_even r = k"
proof -
  have "\<bar>of_int (round_half_even r) - r\<bar> \<le> 1 / 2" by (rule rhe_near)
  with assms have "\<bar>(of_int (round_half_even r) :: rat) - of_int k\<bar> < 1" by linarith
  then have "\<bar>(of_int (round_half_even r - k) :: rat)\<bar> < 1" by simp
  then have "\<bar>round_half_even r - k\<bar> < 1"
    by (metis of_int_abs of_int_less_1_iff)
  then show ?thesis by linarith
qed

lemma rhe_of_int: "round_half_even (of_int k) = k"
  by (rule rhe_unique) simp


lemma pow2_pos: "0 < (2::rat) powi e"
  by simp



lemma floor_rat_numeral [simp]: "\<lfloor>numeral a / numeral b :: rat\<rfloor> = numeral a div numeral b"
  using floor_divide_of_int_eq [of "numeral a" "numeral b", where ?'a = rat] by simp

lemma ceiling_rat_numeral [simp]:
  "\<lceil>numeral a / numeral b :: rat\<rceil> = - ((- numeral a) div numeral b)"
  using floor_divide_of_int_eq [of "- numeral a" "numeral b", where ?'a = rat]
  by (simp add: ceiling_def)

lemmas double_eval = round_to_double_def ilog2_def log2n_small log2n_step round_half_even_def Let_def





section \<open>Facts about the matcher\<close>

declare match_seq.simps(2) [simp del]


lemma list_ex_upt: "list_ex P [lo ..< Suc m] \<longleftrightarrow> (\<exists>k. lo \<le> k \<and> k \<le> m \<and> P k)"
  by (auto simp: list_ex_iff less_Suc_eq_le)

lemma match_seq_unfold:
  "match_seq ((a, lo, hi) # ts) s \<longleftrightarrow>
     (\<exists>k. lo \<le> k \<and> k \<le> length (takeWhile (atom_matches a) s)
          \<and> (case hi of None \<Rightarrow> True | Some h \<Rightarrow> k \<le> h) \<and> match_seq ts (drop k s))"
proof (cases hi)
  case None
  show ?thesis
    unfolding match_seq.simps(2) Let_def list_ex_upt None option.case by simp
next
  case (Some h)
  show ?thesis
    unfolding match_seq.simps(2) Let_def list_ex_upt Some option.case min.bounded_iff by blast
qed

lemma take_within_takeWhile:
  "k \<le> length (takeWhile P s) \<Longrightarrow> list_all P (take k s)"
proof (induction s arbitrary: k)
  case Nil
  then show ?case by simp
next
  case (Cons x xs)
  then show ?case by (cases k) (auto split: if_splits)
qed

lemma match_seq_Cons:
  "match_seq ((a, lo, hi) # ts) s \<longleftrightarrow>
     (\<exists>u v. s = u @ v \<and> lo \<le> length u \<and> (case hi of None \<Rightarrow> True | Some h \<Rightarrow> length u \<le> h)
            \<and> list_all (atom_matches a) u \<and> match_seq ts v)"
  (is "?L \<longleftrightarrow> ?R")
proof
  assume ?L
  then obtain k where k: "lo \<le> k" "k \<le> length (takeWhile (atom_matches a) s)"
      "case hi of None \<Rightarrow> True | Some h \<Rightarrow> k \<le> h" "match_seq ts (drop k s)"
    unfolding match_seq_unfold by blast
  have len: "k \<le> length s"
    using k(2) length_takeWhile_le [of "atom_matches a" s] by linarith
  have "list_all (atom_matches a) (take k s)"
    using k(2) by (rule take_within_takeWhile)
  moreover have "length (take k s) = k" using len by simp
  ultimately have "s = take k s @ drop k s \<and> lo \<le> length (take k s)
      \<and> (case hi of None \<Rightarrow> True | Some h \<Rightarrow> length (take k s) \<le> h)
      \<and> list_all (atom_matches a) (take k s) \<and> match_seq ts (drop k s)"
    using k by (simp split: option.splits)
  then show ?R by blast
next
  assume ?R
  then obtain u v where uv: "s = u @ v" "lo \<le> length u"
      "case hi of None \<Rightarrow> True | Some h \<Rightarrow> length u \<le> h"
      "list_all (atom_matches a) u" "match_seq ts v"
    by blast
  have "length u \<le> length (takeWhile (atom_matches a) s)"
    using uv(1,4) by (simp add: list_all_iff takeWhile_append2)
  moreover have "drop (length u) s = v" using uv(1) by simp
  ultimately show ?L
    unfolding match_seq_unfold using uv(2,3,5) by blast
qed

lemma phone_re_iff: "match_seq phone_re t \<longleftrightarrow> length t = 10 \<and> list_all is_digit t"
proof -
  have "match_seq phone_re t \<longleftrightarrow>
      (\<exists>u v. t = u @ v \<and> 10 \<le> length u \<and> length u \<le> 10 \<and> list_all is_digit u \<and> v = [])"
    by (simp add: phone_re_def exactly_def match_seq_Cons list_all_iff)
  also have "\<dots> \<longleftrightarrow> length t = 10 \<and> list_all is_digit t"
    by auto
  finally show ?thesis .
qed

lemma delete_non_digits: "delete_all NonDigit s = strip_non_digits s"
  by (simp add: delete_all_def strip_non_digits_def)

lemma validatePhone_spec: "validatePhone s = spec_phone_ok s"
  by (simp add: validatePhone_def spec_phone_ok_def phone_re_iff delete_non_digits)

lemma match_once:
  "match_seq (once (Lit d) # ts) s \<longleftrightarrow> (\<exists>v. s = d # v \<and> match_seq ts v)"
proof
  assume "match_seq (once (Lit d) # ts) s"
  then obtain u v where h: "s = u @ v" "1 \<le> length u" "length u \<le> 1"
      "list_all (atom_matches (Lit d)) u" "match_seq ts v"
    by (auto simp: once_def match_seq_Cons)
  from h(2,3,4) have "u = [d]" by (cases u) auto
  with h show "\<exists>v. s = d # v \<and> match_seq ts v" by simp
next
  assume "\<exists>v. s = d # v \<and> match_seq ts v"
  then obtain v where "s = [d] @ v" "match_seq ts v" by auto
  then show "match_seq (once (Lit d) # ts) s"
    unfolding once_def match_seq_Cons
    by (intro exI [of _ "[d]"] exI [of _ v]) simp
qed

lemma match_one_or_more:
  "match_seq (one_or_more a # ts) s \<longleftrightarrow>
     (\<exists>u v. s = u @ v \<and> u \<noteq> [] \<and> list_all (atom_matches a) u \<and> match_seq ts v)"
proof -
  show ?thesis by (simp add: one_or_more_def match_seq_Cons Suc_le_eq)
qed

lemma email_re_iff:
  "validateEmail s \<longleftrightarrow>
     (\<exists>a b c. s = a @ [0x40] @ b @ [0x2E] @ c \<and> a \<noteq> [] \<and> b \<noteq> [] \<and> c \<noteq> []
        \<and> list_all (atom_matches NotSpaceNorAt) a
        \<and> list_all (atom_matches NotSpaceNorAt) b
        \<and> list_all (atom_matches NotSpaceNorAt) c)"
  (is "?L \<longleftrightarrow> ?R")
proof
  assume ?L
  then have m0: "match_seq (one_or_more NotSpaceNorAt # [once (Lit 0x40), one_or_more NotSpaceNorAt,
                 once (Lit 0x2E), one_or_more NotSpaceNorAt]) s"
    by (simp add: validateEmail_def email_re_def)
  from match_one_or_more [THEN iffD1, OF m0]
  obtain a v1 where a: "s = a @ v1" "a \<noteq> []" "list_all (atom_matches NotSpaceNorAt) a"
      and m1: "match_seq (once (Lit 0x40) # [one_or_more NotSpaceNorAt, once (Lit 0x2E),
                 one_or_more NotSpaceNorAt]) v1"
    by blast
  from match_once [THEN iffD1, OF m1]
  obtain v2 where v2: "v1 = 0x40 # v2"
      and m2: "match_seq (one_or_more NotSpaceNorAt # [once (Lit 0x2E), one_or_more NotSpaceNorAt]) v2"
    by blast
  from match_one_or_more [THEN iffD1, OF m2]
  obtain b v3 where b: "v2 = b @ v3" "b \<noteq> []" "list_all (atom_matches NotSpaceNorAt) b"
      and m3: "match_seq (once (Lit 0x2E) # [one_or_more NotSpaceNorAt]) v3"
    by blast
  from match_once [THEN iffD1, OF m3]
  obtain v4 where v4: "v3 = 0x2E # v4"
      and m4: "match_seq (one_or_more NotSpaceNorAt # []) v4"
    by blast
  from match_one_or_more [THEN iffD1, OF m4]
  have c: "v4 \<noteq> []" "list_all (atom_matches NotSpaceNorAt) v4"
    by auto
  have "s = a @ [0x40] @ b @ [0x2E] @ v4"
    using a(1) v2 b(1) v4 by simp
  with a b c show ?R by blast
next
  assume ?R
  then obtain a b c where h: "s = a @ [0x40] @ b @ [0x2E] @ c" "a \<noteq> []" "b \<noteq> []" "c \<noteq> []"
      "list_all (atom_matches NotSpaceNorAt) a" "list_all (atom_matches NotSpaceNorAt) b"
      "list_all (atom_matches NotSpaceNorAt) c"
    by blast
  have m4: "match_seq [one_or_more NotSpaceNorAt] c"
    by (rule match_one_or_more [THEN iffD2]) (use h(4,7) in simp)
  have m3: "match_seq [once (Lit 0x2E), one_or_more NotSpaceNorAt] (0x2E # c)"
    by (rule match_once [THEN iffD2]) (use m4 in simp)
  have m2: "match_seq [one_or_more NotSpaceNorAt, once (Lit 0x2E), one_or_more NotSpaceNorAt]
              (b @ 0x2E # c)"
    by (rule match_one_or_more [THEN iffD2]) (use h(3,6) m3 in blast)
  have m1: "match_seq [once (Lit 0x40), one_or_more NotSpaceNorAt, once (Lit 0x2E),
                 one_or_more NotSpaceNorAt] (0x40 # b @ 0x2E # c)"
    by (rule match_once [THEN iffD2]) (use m2 in simp)
  have "match_seq email_re (a @ 0x40 # b @ 0x2E # c)"
    unfolding email_re_def
    by (rule match_one_or_more [THEN iffD2]) (use h(2,5) m1 in blast)
  then show ?L using h(1) by (simp add: validateEmail_def)
qed

lemma split_at_unique:
  assumes "xs @ a # ys = us @ a # vs" "a \<notin> set xs" "a \<notin> set us"
  shows "xs = us \<and> ys = vs"
  using assms
proof (induction xs arbitrary: us)
  case Nil
  then show ?case by (cases us) auto
next
  case (Cons x xs)
  then show ?case by (cases us) auto
qed

lemma email_no_dot_after_at:
  assumes "s = x @ [0x40] @ y" "0x2E \<notin> set y"
  shows "\<not> validateEmail s"
proof
  assume "validateEmail s"
  then obtain a b c where h: "s = a @ [0x40] @ b @ [0x2E] @ c"
      "list_all (atom_matches NotSpaceNorAt) a" "list_all (atom_matches NotSpaceNorAt) b"
      "list_all (atom_matches NotSpaceNorAt) c"
    unfolding email_re_iff by blast
  have na: "0x40 \<notin> set a" and nb: "0x40 \<notin> set b" and nc: "0x40 \<notin> set c"
    using h(2,3,4) by (auto simp: list_all_iff)
  show False
  proof (cases "0x40 \<in> set x")
    case False
    have "x @ 0x40 # y = a @ 0x40 # (b @ [0x2E] @ c)" using assms(1) h(1) by simp
    from split_at_unique [OF this False na] have "y = b @ [0x2E] @ c" by simp
    with assms(2) show False by simp
  next
    case True
    from split_list_first [OF this] obtain x1 x2 where x: "x = x1 @ 0x40 # x2" "0x40 \<notin> set x1"
      by blast
    have "x1 @ 0x40 # (x2 @ [0x40] @ y) = a @ 0x40 # (b @ [0x2E] @ c)"
      using assms(1) h(1) x(1) by simp
    from split_at_unique [OF this x(2) na] have "x2 @ [0x40] @ y = b @ [0x2E] @ c" by simp
    moreover have "0x40 \<in> set (x2 @ [0x40] @ y)" by simp
    ultimately have "0x40 \<in> set (b @ [0x2E] @ c)" by (simp only:)
    with nb nc show False by simp
  qed
qed

section \<open>Facts about reading and writing numbers\<close>

lemma digit_not_space: "is_digit c \<Longrightarrow> \<not> is_space c"
proof -
  assume d: "is_digit c"
  then have "unat c \<le> 57" "48 \<le> unat c"
    by (simp_all add: is_digit_def word_le_nat_alt)
  then show "\<not> is_space c"
    by (auto simp: is_space_def word_le_nat_alt)
qed




































section \<open>Facts about the page operations\<close>

lemma sent_showNotification [simp]: "sent (showNotification m t st) = sent st"
  by (simp add: showNotification_def Let_def)

lemma inflight_showNotification [simp]: "inflight (showNotification m t st) = inflight st"
  by (simp add: showNotification_def Let_def)

lemma inputs_showNotification [simp]: "inputs (showNotification m t st) = inputs st"
  by (simp add: showNotification_def Let_def)

lemma shown_showNotification [simp]:
  "shown (showNotification m t st) = shown st @ [(m, js ''flash-message flash-'' @ t)]"
  by (simp add: showNotification_def shown_def createFlashContainer_def Let_def split: option.splits)

lemma displayed_showNotification [simp]: "displayed (showNotification m t st) = displayed st"
  by (simp add: showNotification_def displayed_def createFlashContainer_def Let_def
      split: option.splits)


lemma showNotification_in_hidden_container:
  "\<not> displayed st \<Longrightarrow> visible (showNotification m t st) = []"
  by (simp add: showNotification_def visible_def displayed_def Let_def split: option.splits)

lemma visible_fetch [simp]: "visible (fetch r h st) = visible st"
  by (simp add: visible_def fetch_def)

lemma displayed_fetch [simp]: "displayed (fetch r h st) = displayed st"
  by (simp add: displayed_def fetch_def)

lemma sent_fetch [simp]: "sent (fetch r h st) = sent st @ [r]"
  by (simp add: fetch_def)

lemma inflight_fetch [simp]: "inflight (fetch r h st) = inflight st @ [(r, h)]"
  by (simp add: fetch_def)

lemma flash_fetch [simp]: "flash (fetch r h st) = flash st"
  by (simp add: fetch_def)

lemma shown_fetch [simp]: "shown (fetch r h st) = shown st"
  by (simp add: shown_def)

lemma inputs_fetch [simp]: "inputs (fetch r h st) = inputs st"
  by (simp add: fetch_def)

lemma filter_dropWhile_disjoint:
  "(\<And>x. P x \<Longrightarrow> \<not> Q x) \<Longrightarrow> filter P (dropWhile Q xs) = filter P xs"
  by (induction xs) auto

lemma strip_trim: "strip_non_digits (trim s) = strip_non_digits s"
  by (simp add: strip_non_digits_def trim_def filter_dropWhile_disjoint digit_not_space
      flip: rev_filter)

lemma validatePhone_trim: "validatePhone (trim p) \<longleftrightarrow> length (strip_non_digits p) = 10"
proof -
  have "list_all is_digit (strip_non_digits p)"
    by (simp add: strip_non_digits_def list_all_iff)
  then show ?thesis
    by (simp add: validatePhone_spec spec_phone_ok_def strip_trim)
qed

lemma flash_catch_OnCount: "flash (catch_handler OnCount e st) = flash st"
  by simp

lemma flash_then_OnCount: "then_handler OnCount d st = Inr st' \<Longrightarrow> flash st' = flash st"
  by (auto split: option.splits sum.splits)

lemma flash_settle_OnCount: "flash (settle OnCount r st) = flash st"
proof (cases r)
  case (Json d)
  show ?thesis
  proof (cases "then_handler OnCount d st")
    case (Inl e)
    with Json show ?thesis by simp
  next
    case (Inr st')
    with Json flash_then_OnCount [OF Inr] show ?thesis by simp
  qed
qed simp_all

lemma deliver_newest:
  "deliver (length (inflight st)) r (fetch q h st) = settle h r (st\<lparr>sent := sent st @ [q]\<rparr>)"
  by (simp add: deliver_def fetch_def)

lemma addToCart_negative_quantity_rejected:
  "r < 0 \<Longrightarrow> sent (addToCart productId (Some (Fin r)) st) = sent st
     \<and> inflight (addToCart productId (Some (Fin r)) st) = inflight st
     \<and> shown (addToCart productId (Some (Fin r)) st) =
         shown st @ [(JString (js ''Please select a valid quantity''), js ''flash-message flash-error'')]"
  by (simp add: addToCart_def Let_def js_def)

section \<open>The claims\<close>

text \<open>
  C1. For every quantity argument \<open>q \<le> 0\<close>, \<^verbatim>\<open>addToCart(productId, q)\<close> should
  issue no request and show an error notification. A negative argument is
  rejected so (\<open>addToCart_negative_quantity_rejected\<close>), but the argument \<^verbatim>\<open>0\<close>
  is falsy: \<^verbatim>\<open>quantity || ...\<close> replaces it by the value of the quantity field,
  or by 1 when the page has no such field, and the request goes out with
  that quantity and no notification.
\<close>

theorem addToCart_zero_quantity_sends_request:
  "sent (addToCart (js ''P1'') (Some (Fin 0)) bare_page) =
     [post_json (js ''/add_to_cart'')
        [(js ''product_id'', JString (js ''P1'')), (js ''quantity'', JNumber (Fin 1))]]
   \<and> shown (addToCart (js ''P1'') (Some (Fin 0)) bare_page) = []
   \<and> sent (addToCart (js ''P1'') (Some (Fin 0)) product_page) =
     [post_json (js ''/add_to_cart'')
        [(js ''product_id'', JString (js ''P1'')), (js ''quantity'', JNumber (Fin 3))]]
   \<and> shown (addToCart (js ''P1'') (Some (Fin 0)) product_page) = []"
  by (simp add: addToCart_def bare_page_def product_page_def shown_def parseInt_def js_def Let_def
      is_space_def is_radix_digit_def digit_value_def digits_value_def double_eval)



text \<open>
  C3. For every product and every new quantity below 1 (0 in particular),
  \<^verbatim>\<open>updateQuantity\<close> does exactly what \<^verbatim>\<open>removeFromCart\<close> does on that product,
  and no request to \<^verbatim>\<open>/update_cart\<close> is added to those sent.
\<close>

theorem updateQuantity_below_one_removes:
  assumes "q = NegInf \<or> (\<exists>r. q = Fin r \<and> r < 1)"
  shows "updateQuantity confirm productId q st = removeFromCart confirm productId st
     \<and> filter (\<lambda>r. url r = js ''/update_cart'') (sent (updateQuantity confirm productId q st))
       = filter (\<lambda>r. url r = js ''/update_cart'') (sent st)"
proof -
  from assms have lt: "lt_one q" by auto
  have "filter (\<lambda>r. url r = js ''/update_cart'') (sent (removeFromCart confirm productId st))
       = filter (\<lambda>r. url r = js ''/update_cart'') (sent st)"
    by (simp add: removeFromCart_def Let_def post_json_def js_def)
  with lt show ?thesis by (simp add: updateQuantity_def)
qed

theorem updateQuantity_below_one_removes_witness:
  "(0::rat) < 1 \<and> updateQuantity (\<lambda>m. True) (js ''P1'') (Fin 0) cart_page
     = removeFromCart (\<lambda>m. True) (js ''P1'') cart_page
   \<and> map url (sent (updateQuantity (\<lambda>m. True) (js ''P1'') (Fin 0) cart_page)) = [js ''/remove_from_cart'']"
  using updateQuantity_below_one_removes [of "Fin 0" "\<lambda>m. True" "js ''P1''" cart_page]
  by (simp add: removeFromCart_def cart_page_def bare_page_def post_json_def Let_def)

text \<open>
  C4. When the user declines the confirmation dialog, \<^verbatim>\<open>removeFromCart\<close> sends
  no request and shows no notification: the dialog having been opened is
  the only trace it leaves.
\<close>

theorem removeFromCart_declined_is_silent:
  assumes "\<not> confirm (js ''Remove this item from cart?'')"
  shows "removeFromCart confirm productId st
           = st\<lparr>prompts := prompts st @ [js ''Remove this item from cart?'']\<rparr>
     \<and> sent (removeFromCart confirm productId st) = sent st
     \<and> inflight (removeFromCart confirm productId st) = inflight st
     \<and> flash (removeFromCart confirm productId st) = flash st
     \<and> shown (removeFromCart confirm productId st) = shown st"
  using assms by (simp add: removeFromCart_def Let_def shown_def)

theorem removeFromCart_declined_is_silent_witness:
  "sent (removeFromCart (\<lambda>m. False) (js ''P1'') cart_page) = []
   \<and> shown (removeFromCart (\<lambda>m. False) (js ''P1'') cart_page) = []
   \<and> cartLines (removeFromCart (\<lambda>m. False) (js ''P1'') cart_page) = [js ''P1'']"
  using removeFromCart_declined_is_silent [of "\<lambda>m. False" "js ''P1''" cart_page]
  by (simp add: cart_page_def bare_page_def shown_def)

text \<open>
  C5. The phone validator accepts a string exactly when stripping its
  non-digit characters leaves a string of exactly 10 digits; it accepts
  \<^verbatim>\<open>(555) 123-4567\<close> and rejects \<^verbatim>\<open>555-123-456\<close> and \<^verbatim>\<open>55512345678\<close>.
\<close>

theorem validatePhone_iff_ten_digits:
  "(validatePhone s \<longleftrightarrow> spec_phone_ok s)
   \<and> validatePhone (js ''(555) 123-4567'')
   \<and> \<not> validatePhone (js ''555-123-456'')
   \<and> \<not> validatePhone (js ''55512345678'')"
proof -
  have "validatePhone (js ''(555) 123-4567'')"
    by (simp add: validatePhone_spec spec_phone_ok_def strip_non_digits_def js_def is_digit_def)
  moreover have "\<not> validatePhone (js ''555-123-456'')"
    by (simp add: validatePhone_spec spec_phone_ok_def strip_non_digits_def js_def is_digit_def)
  moreover have "\<not> validatePhone (js ''55512345678'')"
    by (simp add: validatePhone_spec spec_phone_ok_def strip_non_digits_def js_def is_digit_def)
  ultimately show ?thesis
    using validatePhone_spec [of s] by simp
qed



text \<open>
  C7. Refreshing the cart count never shows a notification, neither when the
  request is issued nor on any response to it; when the request fails or its
  response is not JSON, the error is logged to the console and nothing else
  changes, the text of the badge included.
\<close>

theorem updateCartCount_never_notifies:
  "flash (updateCartCount st) = flash st
   \<and> flash (deliver (length (inflight st)) r (updateCartCount st)) = flash st
   \<and> deliver (length (inflight st)) NoResponse (updateCartCount st)
       = st\<lparr>sent := sent (updateCartCount st),
             console := console st @ [(js ''Error updating cart count:'', FetchFailed)]\<rparr>
   \<and> deliver (length (inflight st)) NotJson (updateCartCount st)
       = st\<lparr>sent := sent (updateCartCount st),
             console := console st @ [(js ''Error updating cart count:'', JsonParseFailed)]\<rparr>
   \<and> cartCount (deliver (length (inflight st)) NoResponse (updateCartCount st)) = cartCount st
   \<and> cartCount (deliver (length (inflight st)) NotJson (updateCartCount st)) = cartCount st"
  by (simp add: updateCartCount_def deliver_newest flash_settle_OnCount)

text \<open>
  C8. The email validator rejects every string with no \<^verbatim>\<open>@\<close> (code unit
  \<open>0x40\<close>) and every string in which an \<^verbatim>\<open>@\<close> is followed by no \<^verbatim>\<open>.\<close> (code
  unit \<open>0x2E\<close>); it accepts \<^verbatim>\<open>a@b.c\<close>.
\<close>

theorem validateEmail_needs_at_and_dot:
  "(0x40 \<notin> set s \<longrightarrow> \<not> validateEmail s)
   \<and> (0x2E \<notin> set y \<longrightarrow> \<not> validateEmail (x @ [0x40] @ y))
   \<and> validateEmail (js ''a@b.c'')"
proof (intro conjI impI)
  assume "0x40 \<notin> set s"
  then show "\<not> validateEmail s"
    by (auto simp: email_re_iff)
next
  assume "0x2E \<notin> set y"
  then show "\<not> validateEmail (x @ [0x40] @ y)"
    by (rule email_no_dot_after_at [OF refl])
next
  show "validateEmail (js ''a@b.c'')"
    unfolding email_re_iff
    by (intro exI [of _ "[0x61]"] exI [of _ "[0x62]"] exI [of _ "[0x63]"])
       (simp add: js_def is_space_def)
qed

theorem validateEmail_needs_at_and_dot_witness:
  "0x40 \<notin> set (js ''ab.c'') \<and> \<not> validateEmail (js ''ab.c'')
   \<and> 0x2E \<notin> set (js ''bc'') \<and> \<not> validateEmail (js ''a.b@bc'')"
  using validateEmail_needs_at_and_dot [of "js ''ab.c''" "js ''bc''" "js ''a.b''"]
  by (simp add: js_def)




text \<open>
  C10. When the address and the phone pass the checks of \<^verbatim>\<open>placeOrder\<close>, the
  phone in the request body is the trimmed value of the form field, not its
  digits: \<^verbatim>\<open>(555) 123-4567\<close> passes, is unchanged by trimming, and differs from
  what is left of it once the non-digits are deleted.
\<close>

theorem placeOrder_sends_raw_phone:
  "(inputs st (js ''deliveryAddress'') = Some a \<and> inputs st (js ''phoneNumber'') = Some p
      \<and> trim a \<noteq> [] \<and> validatePhone (trim p)
    \<longrightarrow> placeOrder st = Inr (fetch (post_json (js ''/place_order'')
                                    [(js ''address'', JString (trim a)), (js ''phone'', JString (trim p))])
                             OnOrder st))
   \<and> validatePhone (trim (js ''(555) 123-4567''))
   \<and> trim (js ''(555) 123-4567'') = js ''(555) 123-4567''
   \<and> js ''(555) 123-4567'' \<noteq> delete_all NonDigit (js ''(555) 123-4567'')"
proof -
  have tp: "trim (js ''(555) 123-4567'') = js ''(555) 123-4567''"
    by (simp add: trim_def js_def is_space_def)
  have "validatePhone (trim (js ''(555) 123-4567''))"
    by (simp add: validatePhone_trim strip_non_digits_def js_def is_digit_def)
  moreover have "js ''(555) 123-4567'' \<noteq> delete_all NonDigit (js ''(555) 123-4567'')"
    by (simp add: delete_all_def js_def is_digit_def)
  ultimately show ?thesis
    using tp by (simp add: placeOrder_def Let_def)
qed

theorem placeOrder_sends_raw_phone_witness:
  "body (last (sent (projr (placeOrder checkout_page)))) =
     Some [(js ''address'', JString (js ''12 Main St'')),
           (js ''phone'', JString (js ''(555) 123-4567''))]"
proof -
  have a: "inputs checkout_page (js ''deliveryAddress'') = Some (js '' 12 Main St '')"
    by (simp add: checkout_page_def js_def)
  have p: "inputs checkout_page (js ''phoneNumber'') = Some (js ''(555) 123-4567'')"
    by (simp add: checkout_page_def js_def)
  have ta: "trim (js '' 12 Main St '') = js ''12 Main St''"
    by (simp add: trim_def js_def is_space_def)
  have tp: "trim (js ''(555) 123-4567'') = js ''(555) 123-4567''"
    by (simp add: trim_def js_def is_space_def)
  have ne: "js ''12 Main St'' \<noteq> []" by (simp add: js_def)
  have "placeOrder checkout_page = Inr (fetch (post_json (js ''/place_order'')
          [(js ''address'', JString (js ''12 Main St'')),
           (js ''phone'', JString (js ''(555) 123-4567''))]) OnOrder checkout_page)"
    using placeOrder_sends_raw_phone [of checkout_page "js '' 12 Main St ''" "js ''(555) 123-4567''"]
      a p ne by (simp add: ta tp)
  then show ?thesis by (simp add: post_json_def)
qed

end
